theory Spec2Isabelle
  imports Complex_Main
begin

section \<open>Configuration and Python primitives\<close>

text \<open>
  The notebook \<^verbatim>\<open>am_training.ipynb\<close> fixes two process-wide constants (cell "Config").
  A timestamp is a real number, the value its decimal denotes; the double that Python
  holds for it is its rounding \<open>double_of\<close>, defined below. The rounding is written out
  where a product or a quotient is truncated to a sample count. The comparisons and the
  padded end are computed on the exact values; the concrete inputs used for them are
  chosen so that double precision gives the same values.
\<close>

definition FRAME_SIZE :: int where
  "FRAME_SIZE = 250"

definition WINDOW :: int where
  "WINDOW = 50"

datatype py_error =
    FileNotFoundError
  | ValueError
  | TypeError
  | AttributeError
  | AssertionError
  | ZeroDivisionError

text \<open>\<^verbatim>\<open>int(x)\<close> on a float truncates toward zero.\<close>

definition py_int :: "real \<Rightarrow> int" where
  "py_int x = (if 0 \<le> x then \<lfloor>x\<rfloor> else \<lceil>x\<rceil>)"

text \<open>
  The double nearest to a real number (IEEE 754 binary64, round to nearest, ties to
  even): with \<open>2 ^ e \<le> \<bar>x\<bar> < 2 ^ (e + 1)\<close> the doubles around \<open>x\<close> are the multiples of
  \<open>2 ^ (e - 52)\<close>. The exponent is found by halving or doubling. The exponent range of
  the format is not modelled: no sample rate of a wave file header and no time of a
  recording reaches it. True division of two integers and the product of two doubles are
  correctly rounded, so each is \<open>double_of\<close> of the exact result.
\<close>

function up_exp :: "real \<Rightarrow> int \<Rightarrow> int" where
  "up_exp x e = (if x < 2 then e else up_exp (x / 2) (e + 1))"
  by pat_completeness auto
termination
proof (relation "measure (\<lambda>(x, e). nat \<lfloor>x\<rfloor>)")
  show "wf (measure (\<lambda>(x, e). nat \<lfloor>x\<rfloor>))" by simp
next
  fix x :: real and e :: int
  assume "\<not> x < 2"
  then have "\<lfloor>x / 2\<rfloor> < \<lfloor>x\<rfloor>" and "0 < \<lfloor>x\<rfloor>" by linarith+
  then show "((x / 2, e + 1), (x, e)) \<in> measure (\<lambda>(x, e). nat \<lfloor>x\<rfloor>)" by simp
qed

function down_exp :: "real \<Rightarrow> int \<Rightarrow> int" where
  "down_exp x e = (if x \<le> 0 \<or> 1 \<le> x then e else down_exp (2 * x) (e - 1))"
  by pat_completeness auto
termination
proof (relation "measure (\<lambda>(x, e). nat \<lceil>1 / x\<rceil>)")
  show "wf (measure (\<lambda>(x, e). nat \<lceil>1 / x\<rceil>))" by simp
next
  fix x :: real and e :: int
  assume a: "\<not> (x \<le> 0 \<or> 1 \<le> x)"
  define y where "y = 1 / x"
  have y: "1 < y" using a by (simp add: y_def)
  have h: "1 / (2 * x) = y / 2" by (simp add: y_def)
  have c: "2 \<le> \<lceil>y\<rceil>" using y by linarith
  have c': "(2::real) \<le> of_int \<lceil>y\<rceil>" using c by (metis of_int_le_iff of_int_numeral)
  have "y \<le> of_int \<lceil>y\<rceil>" by (rule le_of_int_ceiling)
  then have "y / 2 \<le> of_int \<lceil>y\<rceil> - 1" using c' by linarith
  then have "y / 2 \<le> of_int (\<lceil>y\<rceil> - 1)" by simp
  then have "\<lceil>y / 2\<rceil> \<le> \<lceil>y\<rceil> - 1" by (rule ceiling_le)
  then have "\<lceil>y / 2\<rceil> < \<lceil>y\<rceil>" and "0 < \<lceil>y\<rceil>" using c by simp_all
  then show "((2 * x, e - 1), (x, e)) \<in> measure (\<lambda>(x, e). nat \<lceil>1 / x\<rceil>)"
    unfolding h[symmetric] y_def by (simp add: mult.commute)
qed

declare up_exp.simps [simp del] down_exp.simps [simp del]

definition binary_exponent :: "real \<Rightarrow> int" where
  "binary_exponent x = (if 1 \<le> \<bar>x\<bar> then up_exp \<bar>x\<bar> 0 else down_exp \<bar>x\<bar> 0)"

definition pow2 :: "int \<Rightarrow> real" where
  "pow2 e = (if 0 \<le> e then 2 ^ nat e else 1 / 2 ^ nat (- e))"

definition round_half_even :: "real \<Rightarrow> int" where
  "round_half_even y =
     (let f = \<lfloor>y\<rfloor>; r = y - of_int f
      in if r < 1 / 2 then f else if 1 / 2 < r then f + 1 else if even f then f else f + 1)"

definition double_of :: "real \<Rightarrow> real" where
  "double_of x =
     (if x = 0 then 0
      else let q = pow2 (binary_exponent x - 52)
           in sgn x * of_int (round_half_even (\<bar>x\<bar> / q)) * q)"

text \<open>
  \<^verbatim>\<open>range(i, stop, step)\<close> for a positive step, as the loop it stands for. The source only
  calls it with \<^verbatim>\<open>step = WINDOW\<close>; a non-positive step yields no element here.
\<close>

function py_range :: "int \<Rightarrow> int \<Rightarrow> int \<Rightarrow> int list" where
  "py_range i stop step =
     (if step \<le> 0 \<or> stop \<le> i then [] else i # py_range (i + step) stop step)"
  by pat_completeness auto
termination
  by (relation "measure (\<lambda>(i, stop, step). nat (stop - i))") auto

declare py_range.simps [simp del]

section \<open>Frame timeline builder\<close>

text \<open>
  \<^verbatim>\<open>get_padded_last_timestamp\<close> (lines 170-188). The locals \<^verbatim>\<open>diff\<close> and \<^verbatim>\<open>padding\<close> are
  named functions so that their values can be stated. \<^verbatim>\<open>//\<close> on floats is floor division.
  The branch \<^verbatim>\<open>if not diff\<close> returns the timestamp itself (seconds); the other branch
  returns milliseconds.
\<close>

definition diff :: "real \<Rightarrow> real" where
  "diff timestamp = (timestamp - of_int (py_int timestamp)) * 1000"

definition padding :: "real \<Rightarrow> real" where
  "padding timestamp = of_int \<lfloor>diff timestamp / of_int FRAME_SIZE\<rfloor> + 1"

definition get_padded_last_timestamp :: "real \<Rightarrow> real" where
  "get_padded_last_timestamp timestamp =
     (if diff timestamp = 0 then timestamp
      else (of_int (py_int timestamp) + (of_int FRAME_SIZE * padding timestamp) / 1000) * 1000)"

text \<open>
  One line of an annotation file, split at tabs, with the two timestamps read as numbers
  (the source calls \<^verbatim>\<open>float\<close> on the end field only).
\<close>

record interval =
  iv_start :: real
  iv_end :: real
  iv_phoneme :: string

record frame =
  fr_start :: real
  fr_end :: real
  fr_phoneme :: string

text \<open>
  The inner loop of \<^verbatim>\<open>get_phoneme_timestamps\<close> (lines 234-239): \<^verbatim>\<open>sym\<close> starts as
  \<^verbatim>\<open>None\<close>, each interval whose end does not exceed \<^verbatim>\<open>end_time\<close> overwrites it, and the
  first interval whose end exceeds \<^verbatim>\<open>end_time\<close> leaves the loop. The variable is
  called \<open>cur\<close> here, \<open>sym\<close> being a constant of HOL.
\<close>

fun scan_sym :: "interval list \<Rightarrow> real \<Rightarrow> string option \<Rightarrow> string option" where
  "scan_sym [] end_time cur = cur"
| "scan_sym (iv # ivs) end_time cur =
     (if iv_end iv > end_time then cur
      else scan_sym ivs end_time (Some (iv_phoneme iv)))"

text \<open>\<^verbatim>\<open>sym or "SIL"\<close>: \<^verbatim>\<open>None\<close> and the empty string are both falsy.\<close>

definition sym_or :: "string option \<Rightarrow> string \<Rightarrow> string" where
  "sym_or cur d = (case cur of None \<Rightarrow> d | Some s \<Rightarrow> if s = [] then d else s)"

definition frame_at :: "interval list \<Rightarrow> int \<Rightarrow> frame" where
  "frame_at ivs i =
     (let start_time = of_int i / 1000;
          end_time = of_int (i + FRAME_SIZE) / 1000
      in \<lparr>fr_start = start_time, fr_end = end_time,
          fr_phoneme = sym_or (scan_sym ivs end_time None) ''SIL''\<rparr>)"

text \<open>
  The body of \<^verbatim>\<open>get_phoneme_timestamps\<close> after the file is read (lines 225-247).
  An empty file makes the three-way unpacking of \<^verbatim>\<open>zip(*[])\<close> raise ValueError.
\<close>

definition padded_last_timestamp :: "interval list \<Rightarrow> int" where
  "padded_last_timestamp ivs = py_int (get_padded_last_timestamp (iv_end (last ivs)))"

definition phoneme_frames :: "interval list \<Rightarrow> py_error + frame list" where
  "phoneme_frames ivs =
     (if ivs = [] then Inl ValueError
      else Inr (map (frame_at ivs) (py_range 0 (padded_last_timestamp ivs) WINDOW)))"

text \<open>
  The annotation files on disk: a path either has no file or holds its lines.
  \<^verbatim>\<open>open\<close> on a missing path raises FileNotFoundError.
\<close>

type_synonym label_files = "string \<rightharpoonup> interval list"

definition get_phoneme_timestamps :: "label_files \<Rightarrow> string \<Rightarrow> py_error + frame list" where
  "get_phoneme_timestamps labels audio_label_path =
     (case labels audio_label_path of
        None \<Rightarrow> Inl FileNotFoundError
      | Some ivs \<Rightarrow> phoneme_frames ivs)"

section \<open>Segment writer\<close>

text \<open>
  String operations of \<^verbatim>\<open>save_phoneme_frames\<close>: \<^verbatim>\<open>s.replace(old, "")\<close> removes the
  occurrences of \<^verbatim>\<open>old\<close> from left to right without rescanning, \<^verbatim>\<open>s.rsplit("/")[-1]\<close> is
  the part after the last slash, and \<^verbatim>\<open>sub in s\<close> is the substring test.
\<close>

fun py_remove :: "string \<Rightarrow> string \<Rightarrow> string" where
  "py_remove old [] = []"
| "py_remove old (c # cs) =
     (if old \<noteq> [] \<and> take (length old) (c # cs) = old
      then py_remove old (drop (length old) (c # cs))
      else c # py_remove old cs)"

definition last_component :: "string \<Rightarrow> string" where
  "last_component s = rev (takeWhile (\<lambda>c. c \<noteq> CHR ''/'') (rev s))"

fun contains :: "string \<Rightarrow> string \<Rightarrow> bool" where
  "contains sub [] = (sub = [])"
| "contains sub (c # cs) = (take (length sub) (c # cs) = sub \<or> contains sub cs)"

text \<open>
  \<^verbatim>\<open>xs[s:e]\<close> on a list or a one-dimensional array: negative indices count from the end
  and both bounds are clipped to the length.
\<close>

definition clip_index :: "nat \<Rightarrow> int \<Rightarrow> nat" where
  "clip_index n i = (if i < 0 then nat (max (i + int n) 0) else min (nat i) n)"

definition py_slice :: "'a list \<Rightarrow> int \<Rightarrow> int \<Rightarrow> 'a list" where
  "py_slice xs s e =
     (let s' = clip_index (length xs) s; e' = clip_index (length xs) e
      in take (e' - s') (drop s' xs))"

text \<open>
  A recording is its sample rate and its samples (one channel). A written segment keeps
  the three parts of its name \<^verbatim>\<open>data/phonemes/{audio_name}__{phoneme}__{i + 1}.wav\<close>
  apart, with the rate and the samples handed to \<^verbatim>\<open>wavfile.write\<close>.
\<close>

type_synonym wav_files = "string \<rightharpoonup> nat \<times> int list"

record segment_file =
  seg_audio_name :: string
  seg_phoneme :: string
  seg_index :: nat
  seg_sr :: nat
  seg_data :: "int list"

definition audio_name_of :: "string \<Rightarrow> string" where
  "audio_name_of audio_path = last_component (py_remove ''.wav'' audio_path)"

definition audio_label_path_of :: "string \<Rightarrow> string" where
  "audio_label_path_of audio_path = ''data/raw/'' @ audio_name_of audio_path @ ''_labels.txt''"

text \<open>
  Line 274, \<^verbatim>\<open>int((sr * FRAME_SIZE)/1000)\<close>: the product is an integer, the quotient a double.
\<close>

definition data_size :: "nat \<Rightarrow> int" where
  "data_size sr = py_int (double_of (real_of_int (int sr * FRAME_SIZE) / 1000))"

text \<open>
  Lines 278-282: the slice of one frame, padded with zeros on the right when it is
  shorter than \<^verbatim>\<open>data_size\<close>. \<^verbatim>\<open>int(start * sr)\<close> truncates the double product of the
  double \<^verbatim>\<open>start\<close> (the quotient \<^verbatim>\<open>i/1000\<close> of the timeline, rounded) and the sample
  rate.
\<close>

definition start_sample :: "nat \<Rightarrow> frame \<Rightarrow> int" where
  "start_sample sr f = py_int (double_of (double_of (fr_start f) * double_of (real sr)))"

definition end_sample :: "nat \<Rightarrow> frame \<Rightarrow> int" where
  "end_sample sr f = py_int (double_of (double_of (fr_end f) * double_of (real sr)))"

definition frame_data :: "nat \<Rightarrow> int list \<Rightarrow> frame \<Rightarrow> int list" where
  "frame_data sr wav f =
     (let data = py_slice wav (start_sample sr f) (end_sample sr f)
      in if int (length data) < data_size sr
         then data @ replicate (nat (data_size sr - int (length data))) 0
         else data)"

text \<open>The loop over \<^verbatim>\<open>enumerate(phoneme_timestamps)\<close> (lines 275-283), from index \<open>i\<close> on.\<close>

fun write_frames :: "string \<Rightarrow> nat \<Rightarrow> int list \<Rightarrow> nat \<Rightarrow> frame list \<Rightarrow> segment_file list" where
  "write_frames audio_name sr wav i [] = []"
| "write_frames audio_name sr wav i (f # fs) =
     (if \<not> contains ''oov'' (fr_phoneme f)
      then \<lparr>seg_audio_name = audio_name, seg_phoneme = fr_phoneme f, seg_index = i + 1,
            seg_sr = sr, seg_data = frame_data sr wav f\<rparr>
           # write_frames audio_name sr wav (i + 1) fs
      else write_frames audio_name sr wav (i + 1) fs)"

text \<open>
  \<^verbatim>\<open>save_phoneme_frames\<close> (lines 261-285) returns the segment files it wrote, in order.
  FileNotFoundError, from the annotation file or from the recording, is caught and
  dropped; any other error leaves the function. The output directory is taken to exist.
\<close>

definition save_phoneme_frames ::
  "label_files \<Rightarrow> wav_files \<Rightarrow> string \<Rightarrow> py_error + segment_file list" where
  "save_phoneme_frames labels wavs audio_path =
     (case get_phoneme_timestamps labels (audio_label_path_of audio_path) of
        Inl err \<Rightarrow> (if err = FileNotFoundError then Inr [] else Inl err)
      | Inr phoneme_timestamps \<Rightarrow>
          (case wavs audio_path of
             None \<Rightarrow> Inr []
           | Some (sr, wav) \<Rightarrow>
               Inr (write_frames (audio_name_of audio_path) sr wav 0 phoneme_timestamps)))"

section \<open>Parallel segmentation driver\<close>

text \<open>
  \<^verbatim>\<open>mp__save_phoneme_frames(fn, data, workers)\<close> (lines 299-302). The body maps
  \<^verbatim>\<open>save_phoneme_frames\<close> over the notebook's global \<^verbatim>\<open>audio_files\<close>; the parameters
  \<^verbatim>\<open>fn\<close> and \<^verbatim>\<open>data\<close> are not read. \<^verbatim>\<open>workers or mp.cpu_count()\<close> takes the
  machine's count for \<^verbatim>\<open>None\<close> and for \<open>0\<close>; \<^verbatim>\<open>mp.Pool\<close> refuses a size below one.
  \<^verbatim>\<open>pool.map\<close> applies the function to every element and keeps the order of the results;
  when a worker raised, \<^verbatim>\<open>pool.map\<close> raises that exception in the caller and the driver
  has no result (what had been written by then is not part of it). Otherwise the result
  pairs every processed path with the segments written for it. The only error that leaves
  \<^verbatim>\<open>save_phoneme_frames\<close> here is ValueError, so it does not matter which failed worker
  \<^verbatim>\<open>pool.map\<close> reports; the first in the order of the list is taken.
\<close>

record driver_run =
  pool_size :: int
  processed :: "(string \<times> segment_file list) list"

fun collect_results :: "(string \<times> (py_error + 'a)) list \<Rightarrow> py_error + (string \<times> 'a) list" where
  "collect_results [] = Inr []"
| "collect_results ((p, r) # rs) =
     (case r of
        Inl err \<Rightarrow> Inl err
      | Inr v \<Rightarrow> (case collect_results rs of
                   Inl err \<Rightarrow> Inl err
                 | Inr vs \<Rightarrow> Inr ((p, v) # vs)))"

definition mp__save_phoneme_frames ::
  "string list \<Rightarrow> int \<Rightarrow> label_files \<Rightarrow> wav_files
     \<Rightarrow> 'fn \<Rightarrow> string list \<Rightarrow> int option \<Rightarrow> py_error + driver_run" where
  "mp__save_phoneme_frames audio_files cpu_count labels wavs fn data workers =
     (let workers' = (case workers of None \<Rightarrow> cpu_count
                      | Some w \<Rightarrow> if w = 0 then cpu_count else w)
      in if workers' < 1 then Inl ValueError
         else (case collect_results
                      (map (\<lambda>p. (p, save_phoneme_frames labels wavs p)) audio_files) of
                 Inl err \<Rightarrow> Inl err
               | Inr results \<Rightarrow> Inr \<lparr>pool_size = workers', processed = results\<rparr>))"

section \<open>Partitioned stream\<close>

text \<open>
  \<^verbatim>\<open>grouper(iterable, n, fillvalue)\<close> (lines 383-400): \<^verbatim>\<open>zip_longest\<close> over \<open>n\<close> references
  to one iterator yields tuples of \<open>n\<close> consecutive items and fills the last one; with no
  reference (\<open>n \<le> 0\<close>) it yields nothing.
\<close>

function grouper :: "'a list \<Rightarrow> nat \<Rightarrow> 'a \<Rightarrow> 'a list list" where
  "grouper iterable n fillvalue =
     (if n = 0 \<or> iterable = [] then []
      else (take n iterable @ replicate (n - length (take n iterable)) fillvalue)
           # grouper (drop n iterable) n fillvalue)"
  by pat_completeness auto
termination
  by (relation "measure (\<lambda>(iterable, n, fillvalue). length iterable)") auto

declare grouper.simps [simp del]

text \<open>
  \<^verbatim>\<open>IterableAudioStreamDataset.__init__\<close> (lines 452-461), given what \<^verbatim>\<open>glob\<close> found.
\<close>

record dataset =
  files :: "string list"
  batch_size :: int

definition init_dataset :: "string list \<Rightarrow> int \<Rightarrow> py_error + dataset" where
  "init_dataset globbed bs =
     (if globbed = [] then Inl AssertionError
      else if \<not> bs > 0 then Inl AssertionError
      else Inr \<lparr>files = globbed, batch_size = bs\<rparr>)"

text \<open>What \<^verbatim>\<open>torch.utils.data.get_worker_info()\<close> returns inside a worker process.\<close>

record worker_info =
  worker_id :: int
  num_workers :: int

text \<open>
  The index computation of \<^verbatim>\<open>__iter__\<close> (lines 475-497). \<^verbatim>\<open>files_per_batch\<close> is computed
  before the branch; \<^verbatim>\<open>//\<close> on integers is floor division, as \<open>div\<close> is.
\<close>

definition iter_bounds :: "dataset \<Rightarrow> worker_info option \<Rightarrow> py_error + int \<times> int" where
  "iter_bounds self info =
     (if batch_size self = 0 then Inl ZeroDivisionError
      else
        let files_per_batch = \<lceil>real (length (files self)) / real_of_int (batch_size self)\<rceil>
        in case info of
             None \<Rightarrow> Inr (0, files_per_batch)
           | Some w \<Rightarrow>
               if num_workers w = 0 then Inl ZeroDivisionError
               else
                 let work_load = int (length (files self)) div num_workers w;
                     start_idx = worker_id w * work_load;
                     end_idx = start_idx + work_load
                 in Inr (start_idx, end_idx))"

text \<open>
  The argument of the last line of \<^verbatim>\<open>__iter__\<close>:
  \<^verbatim>\<open>grouper(self.files[start_idx:end_idx], self.batch_size)\<close>, a file path being \<open>Some\<close>
  and the filler \<^verbatim>\<open>None\<close> being \<open>None\<close>.
\<close>

definition iter_batches :: "dataset \<Rightarrow> worker_info option \<Rightarrow> py_error + string option list list" where
  "iter_batches self info =
     (case iter_bounds self info of
        Inl err \<Rightarrow> Inl err
      | Inr (start_idx, end_idx) \<Rightarrow>
          Inr (grouper (map Some (py_slice (files self) start_idx end_idx))
                 (nat (batch_size self)) None))"

text \<open>
  \<^verbatim>\<open>stream_batch(self, batched_files)\<close> (lines 432-437) is a function of the module with two
  required positional parameters; a call binds its positional arguments to them and
  raises TypeError when their number differs. With both bound, the body reads
  \<^verbatim>\<open>self.lazy_load_files\<close>, which neither a dataset nor a \<^verbatim>\<open>zip_longest\<close> object has
  (\<^verbatim>\<open>lazy_load_files\<close> is a function of the module too).
\<close>

datatype py_value =
    Dataset dataset
  | ZipLongest "string option list list"

fun has_lazy_load_files :: "py_value \<Rightarrow> bool" where
  "has_lazy_load_files (Dataset d) = False"
| "has_lazy_load_files (ZipLongest b) = False"

definition stream_batch :: "py_value list \<Rightarrow> py_error + string option list list" where
  "stream_batch args =
     (case args of
        [self, batched_files] \<Rightarrow>
          (if has_lazy_load_files self
           then (case batched_files of ZipLongest b \<Rightarrow> Inr b | Dataset d \<Rightarrow> Inl TypeError)
           else Inl AttributeError)
      | _ \<Rightarrow> Inl TypeError)"

text \<open>
  \<^verbatim>\<open>__iter__\<close> (lines 463-498): the batches are built first, then \<^verbatim>\<open>stream_batch\<close> is
  called with them as its only argument.
\<close>

definition dataset_iter :: "dataset \<Rightarrow> worker_info option \<Rightarrow> py_error + string option list list" where
  "dataset_iter self info =
     (case iter_batches self info of
        Inl err \<Rightarrow> Inl err
      | Inr batches \<Rightarrow> stream_batch [ZipLongest batches])"

section \<open>The specification's reading of a frame label\<close>

text \<open>
  The specification words the label of a frame as the phoneme of the last interval, in
  input order, whose end does not exceed the end of the frame, and \<open>SIL\<close> when there is
  none. This definition follows those words; \<open>scan_sym\<close> above follows the source.
\<close>

definition qualifies :: "real \<Rightarrow> interval \<Rightarrow> bool" where
  "qualifies end_time iv = (iv_end iv \<le> end_time)"

definition spec_frame_label :: "interval list \<Rightarrow> real \<Rightarrow> string" where
  "spec_frame_label ivs end_time =
     (case filter (qualifies end_time) ivs of
        [] \<Rightarrow> ''SIL''
      | q # qs \<Rightarrow> iv_phoneme (last (q # qs)))"

section \<open>Example inputs\<close>

text \<open>
  A recording \<^verbatim>\<open>data/raw/a.wav\<close> of three samples at 8 Hz whose annotation is a single
  out-of-vocabulary interval ending at 0.375 s.
\<close>

definition ex_labels :: label_files where
  "ex_labels = [''data/raw/a_labels.txt'' \<mapsto> [\<lparr>iv_start = 0, iv_end = 3/8, iv_phoneme = ''oov''\<rparr>]]"

definition ex_wavs :: wav_files where
  "ex_wavs = [''data/raw/a.wav'' \<mapsto> (8, [1, 2, 3])]"

text \<open>
  A recording \<^verbatim>\<open>data/raw/a.wav\<close> of one second at 11025 Hz whose annotation is a single
  interval ending at 0.75 s.
\<close>

definition cex_labels :: label_files where
  "cex_labels = [''data/raw/a_labels.txt'' \<mapsto> [\<lparr>iv_start = 0, iv_end = 3/4, iv_phoneme = ''a''\<rparr>]]"

definition cex_wavs :: wav_files where
  "cex_wavs = [''data/raw/a.wav'' \<mapsto> (11025, replicate 11025 0)]"

text \<open>
  A recording \<^verbatim>\<open>data/raw/p.wav\<close> of three samples at 8 Hz whose annotation has an
  out-of-vocabulary interval up to 0.25 s and an interval \<open>a\<close> up to 0.375 s.
\<close>

definition pad_labels :: label_files where
  "pad_labels = [''data/raw/p_labels.txt'' \<mapsto>
     [\<lparr>iv_start = 0, iv_end = 1/4, iv_phoneme = ''oov''\<rparr>,
      \<lparr>iv_start = 1/4, iv_end = 3/8, iv_phoneme = ''a''\<rparr>]]"

definition pad_wavs :: wav_files where
  "pad_wavs = [''data/raw/p.wav'' \<mapsto> (8, [1, 2, 3])]"

text \<open>
  A recording \<^verbatim>\<open>data/raw/s.wav\<close> of two samples at 7 Hz whose annotation is a single
  interval ending at 0.125 s.
\<close>

definition seven_labels :: label_files where
  "seven_labels = [''data/raw/s_labels.txt'' \<mapsto>
     [\<lparr>iv_start = 0, iv_end = 1/8, iv_phoneme = ''a''\<rparr>]]"

definition seven_wavs :: wav_files where
  "seven_wavs = [''data/raw/s.wav'' \<mapsto> (7, [1, 2])]"

section \<open>Properties of the frame timeline\<close>

text \<open>The loop \<^verbatim>\<open>range(i, stop, step)\<close> runs \<open>\<lceil>(stop - i) / step\<rceil>\<close> times, at \<open>i + k * step\<close>.\<close>

lemma py_range_length:
  "0 < step \<Longrightarrow> length (py_range i stop step) = nat \<lceil>(of_int (stop - i) :: real) / of_int step\<rceil>"
proof (induction i stop step rule: py_range.induct)
  case (1 i stop step)
  show ?case
  proof (cases "stop \<le> i")
    case True
    then have "(of_int (stop - i) :: real) / of_int step \<le> 0" using 1(2) by (simp add: divide_le_0_iff)
    then have "\<lceil>(of_int (stop - i) :: real) / of_int step\<rceil> \<le> 0" by (simp add: ceiling_le_zero)
    then show ?thesis using True by (simp add: py_range.simps)
  next
    case False
    define x where "x = (of_int (stop - (i + step)) :: real) / of_int step"
    have ih: "length (py_range (i + step) stop step) = nat \<lceil>x\<rceil>"
      using False 1 by (simp add: x_def)
    have e: "(of_int (stop - i) :: real) / of_int step = x + 1"
      using 1(2) by (simp add: x_def field_simps)
    have "- 1 < x" using False 1(2) by (simp add: x_def field_simps)
    then have "0 \<le> \<lceil>x\<rceil>" by linarith
    then have "nat \<lceil>x + 1\<rceil> = Suc (nat \<lceil>x\<rceil>)" by (simp add: Suc_nat_eq_nat_zadd1)
    then show ?thesis using False 1(2) ih unfolding e by (simp add: py_range.simps[of i])
  qed
qed

lemma py_range_nth:
  "0 < step \<Longrightarrow> k < length (py_range i stop step) \<Longrightarrow> py_range i stop step ! k = i + int k * step"
proof (induction i stop step arbitrary: k rule: py_range.induct)
  case (1 i stop step)
  show ?case
  proof (cases "stop \<le> i")
    case True
    then show ?thesis using 1(3) by (simp add: py_range.simps)
  next
    case False
    then have u: "py_range i stop step = i # py_range (i + step) stop step"
      using 1(2) by (simp add: py_range.simps[of i])
    show ?thesis
    proof (cases k)
      case 0
      then show ?thesis by (simp add: u)
    next
      case (Suc j)
      then have "j < length (py_range (i + step) stop step)" using 1(3) u by simp
      then have "py_range (i + step) stop step ! j = i + step + int j * step"
        using 1(1)[of j] False 1(2) by simp
      then show ?thesis using Suc by (simp add: u algebra_simps)
    qed
  qed
qed

text \<open>
  The timeline has \<open>\<lceil>padded / WINDOW\<rceil>\<close> frames for the integer \<open>padded\<close> the source
  computes, frame \<open>k\<close> starts at \<open>k * WINDOW\<close> milliseconds, and consecutive starts differ
  by \<open>WINDOW\<close>.
\<close>

lemma phoneme_frames_length:
  assumes "phoneme_frames ivs = Inr fs"
  shows "length fs = nat \<lceil>real_of_int (padded_last_timestamp ivs) / real_of_int WINDOW\<rceil>"
proof -
  have "fs = map (frame_at ivs) (py_range 0 (padded_last_timestamp ivs) WINDOW)"
    using assms by (simp add: phoneme_frames_def split: if_splits)
  then show ?thesis
    using py_range_length[of WINDOW 0 "padded_last_timestamp ivs"] by (simp add: WINDOW_def)
qed

lemma phoneme_frames_nth:
  assumes "phoneme_frames ivs = Inr fs" and "k < length fs"
  shows "fs ! k = frame_at ivs (int k * WINDOW)"
proof -
  have fs: "fs = map (frame_at ivs) (py_range 0 (padded_last_timestamp ivs) WINDOW)"
    using assms(1) by (simp add: phoneme_frames_def split: if_splits)
  then have k: "k < length (py_range 0 (padded_last_timestamp ivs) WINDOW)"
    using assms(2) by simp
  have "py_range 0 (padded_last_timestamp ivs) WINDOW ! k = int k * WINDOW"
    using py_range_nth[OF _ k] by (simp add: WINDOW_def)
  then show ?thesis using fs k by simp
qed

lemma phoneme_frames_stride:
  assumes "phoneme_frames ivs = Inr fs" and "Suc k < length fs"
  shows "(fr_start (fs ! Suc k) - fr_start (fs ! k)) * 1000 = real_of_int WINDOW"
  using phoneme_frames_nth[OF assms] phoneme_frames_nth[OF assms(1), of k] assms(2)
  by (simp add: frame_at_def Let_def field_simps)

lemma py_range_250: "py_range 0 250 50 = [0, 50, 100, 150, 200]"
  by (simp add: py_range.simps)

text \<open>
  Claim C9. For the single interval \<open>(0.10, 0.15, ah_S)\<close> the remainder \<open>diff\<close> is 150 ms,
  \<open>padding\<close> is 1, the padded end is 250 ms, and the timeline has exactly the five frames
  starting at 0, 50, 100, 150 and 200 ms, each 250 ms long.
\<close>

theorem scenario_single_interval:
  "diff (15/100) = 150 \<and> padding (15/100) = 1 \<and> get_padded_last_timestamp (15/100) = 250 \<and>
   phoneme_frames [\<lparr>iv_start = 10/100, iv_end = 15/100, iv_phoneme = ''ah_S''\<rparr>] =
     Inr [\<lparr>fr_start = 0, fr_end = 250/1000, fr_phoneme = ''ah_S''\<rparr>,
          \<lparr>fr_start = 50/1000, fr_end = 300/1000, fr_phoneme = ''ah_S''\<rparr>,
          \<lparr>fr_start = 100/1000, fr_end = 350/1000, fr_phoneme = ''ah_S''\<rparr>,
          \<lparr>fr_start = 150/1000, fr_end = 400/1000, fr_phoneme = ''ah_S''\<rparr>,
          \<lparr>fr_start = 200/1000, fr_end = 450/1000, fr_phoneme = ''ah_S''\<rparr>]"
  by (simp add: phoneme_frames_def diff_def padding_def get_padded_last_timestamp_def
      padded_last_timestamp_def py_int_def FRAME_SIZE_def WINDOW_def py_range_250 frame_at_def
      sym_or_def)

text \<open>
  At a timestamp on a whole second nothing is added and nothing is converted: the result
  is the number of seconds, and the loop, which reads it as milliseconds, makes
  \<open>\<lceil>seconds / WINDOW\<rceil>\<close> frames.
\<close>

lemma whole_second_not_converted:
  "diff timestamp = 0 \<Longrightarrow> get_padded_last_timestamp timestamp = timestamp"
  by (simp add: get_padded_last_timestamp_def)

lemma whole_second_frame_count:
  assumes "phoneme_frames ivs = Inr fs" and "diff (iv_end (last ivs)) = 0"
  shows "length fs = nat \<lceil>real_of_int (py_int (iv_end (last ivs))) / real_of_int WINDOW\<rceil>"
  using phoneme_frames_length[OF assms(1)] assms(2)
  by (simp add: padded_last_timestamp_def whole_second_not_converted)

lemma py_range_2: "py_range 0 2 50 = [0]"
  by (simp add: py_range.simps)

text \<open>
  Claim C2, at a last end on a whole second. The branch \<^verbatim>\<open>if not diff\<close> returns the
  timestamp in seconds where the other branch returns milliseconds: for an annotation
  ending at 2 s the padded end is 2 (read as milliseconds by the loop), and the timeline
  is the single frame at 0 ms, where 2 s at a stride of \<open>WINDOW\<close> are 40 frames.
\<close>

theorem whole_second_end_single_frame:
  "get_padded_last_timestamp 2 = 2 \<and>
   phoneme_frames [\<lparr>iv_start = 0, iv_end = 2, iv_phoneme = ''a''\<rparr>] =
     Inr [\<lparr>fr_start = 0, fr_end = 250/1000, fr_phoneme = ''SIL''\<rparr>] \<and>
   nat \<lceil>2 * 1000 / real_of_int WINDOW\<rceil> = 40"
  by (simp add: phoneme_frames_def diff_def padding_def get_padded_last_timestamp_def
      padded_last_timestamp_def py_int_def FRAME_SIZE_def WINDOW_def py_range_2 frame_at_def
      sym_or_def)

section \<open>Properties of the frame label\<close>

text \<open>
  The scan returns the phoneme of the last interval of the longest prefix of intervals
  that all end at or before the end of the frame. On ends in non-decreasing order that
  prefix holds every such interval.
\<close>

lemma scan_sym_takeWhile:
  "scan_sym ivs e cur =
     (case takeWhile (qualifies e) ivs of [] \<Rightarrow> cur | q # qs \<Rightarrow> Some (iv_phoneme (last (q # qs))))"
proof (induction ivs arbitrary: cur)
  case Nil
  then show ?case by simp
next
  case (Cons iv ivs)
  then show ?case by (auto simp: qualifies_def not_less split: list.splits)
qed

lemma sorted_takeWhile_filter:
  "sorted (map iv_end ivs) \<Longrightarrow> takeWhile (qualifies e) ivs = filter (qualifies e) ivs"
proof (induction ivs)
  case Nil
  then show ?case by simp
next
  case (Cons iv ivs)
  show ?case
  proof (cases "qualifies e iv")
    case True
    then show ?thesis using Cons by simp
  next
    case False
    then have "\<forall>x\<in>set ivs. \<not> qualifies e x" using Cons.prems by (auto simp: qualifies_def)
    then have "filter (qualifies e) ivs = []" by (simp add: filter_empty_conv)
    then show ?thesis using False by simp
  qed
qed

text \<open>
  Claim C3 as stated fails when the ends are not in order: with the intervals
  \<open>(0, 1, a)\<close> and \<open>(0.125, 0.25, b)\<close> the frame \<open>[0, 0.25)\<close> is labelled \<open>SIL\<close>, the scan
  leaving at the first interval, while the last interval ending at or before 0.25 is \<open>b\<close>.
\<close>

theorem frame_label_unsorted_counterexample:
  "fr_phoneme (frame_at [\<lparr>iv_start = 0, iv_end = 1, iv_phoneme = ''a''\<rparr>,
                         \<lparr>iv_start = 1/8, iv_end = 1/4, iv_phoneme = ''b''\<rparr>] 0) = ''SIL'' \<and>
   spec_frame_label [\<lparr>iv_start = 0, iv_end = 1, iv_phoneme = ''a''\<rparr>,
                     \<lparr>iv_start = 1/8, iv_end = 1/4, iv_phoneme = ''b''\<rparr>]
      (real_of_int (0 + FRAME_SIZE) / 1000) = ''b''"
  by (simp add: frame_at_def sym_or_def spec_frame_label_def qualifies_def FRAME_SIZE_def)

text \<open>
  Claim C3, amended. The label of the frame at \<open>i\<close> is the phoneme of the last interval of
  the longest prefix of the interval list whose ends all do not exceed the end of the
  frame; it is \<open>SIL\<close> when that prefix is empty or that phoneme is the empty string. When
  the ends are in non-decreasing order and no phoneme is empty, this is the label the
  specification words.
\<close>

theorem frame_label_last_of_prefix:
  "fr_phoneme (frame_at ivs i) =
     (let pre = takeWhile (qualifies (real_of_int (i + FRAME_SIZE) / 1000)) ivs
      in if pre = [] \<or> iv_phoneme (last pre) = [] then ''SIL'' else iv_phoneme (last pre)) \<and>
   (sorted (map iv_end ivs) \<and> (\<forall>iv\<in>set ivs. iv_phoneme iv \<noteq> []) \<longrightarrow>
      fr_phoneme (frame_at ivs i) = spec_frame_label ivs (real_of_int (i + FRAME_SIZE) / 1000))"
proof (intro conjI impI)
  let ?e = "real_of_int (i + FRAME_SIZE) / 1000"
  show pre: "fr_phoneme (frame_at ivs i) =
     (let pre = takeWhile (qualifies ?e) ivs
      in if pre = [] \<or> iv_phoneme (last pre) = [] then ''SIL'' else iv_phoneme (last pre))"
    by (simp add: frame_at_def Let_def scan_sym_takeWhile sym_or_def split: list.splits)
  assume a: "sorted (map iv_end ivs) \<and> (\<forall>iv\<in>set ivs. iv_phoneme iv \<noteq> [])"
  then have tw: "takeWhile (qualifies ?e) ivs = filter (qualifies ?e) ivs"
    by (simp add: sorted_takeWhile_filter)
  show "fr_phoneme (frame_at ivs i) = spec_frame_label ivs ?e"
  proof (cases "filter (qualifies ?e) ivs")
    case Nil
    then show ?thesis using pre tw by (simp add: spec_frame_label_def)
  next
    case (Cons q qs)
    then have "last (q # qs) \<in> set ivs"
      by (metis filter_is_subset last_in_set list.distinct(1) subsetD)
    then have "iv_phoneme (last (q # qs)) \<noteq> []" using a by blast
    then show ?thesis using pre tw Cons by (simp add: spec_frame_label_def Let_def)
  qed
qed

text \<open>The amended claim C3 at three intervals in order, for the frame \<open>[0, 0.25)\<close>.\<close>

theorem frame_label_last_of_prefix_witness:
  "sorted (map iv_end [\<lparr>iv_start = 0, iv_end = 1/8, iv_phoneme = ''a''\<rparr>,
                       \<lparr>iv_start = 1/8, iv_end = 1/4, iv_phoneme = ''b''\<rparr>,
                       \<lparr>iv_start = 1/4, iv_end = 1, iv_phoneme = ''c''\<rparr>]) \<and>
   fr_phoneme (frame_at [\<lparr>iv_start = 0, iv_end = 1/8, iv_phoneme = ''a''\<rparr>,
                         \<lparr>iv_start = 1/8, iv_end = 1/4, iv_phoneme = ''b''\<rparr>,
                         \<lparr>iv_start = 1/4, iv_end = 1, iv_phoneme = ''c''\<rparr>] 0) = ''b''"
  using frame_label_last_of_prefix [of "[\<lparr>iv_start = 0, iv_end = 1/8, iv_phoneme = ''a''\<rparr>,
                         \<lparr>iv_start = 1/8, iv_end = 1/4, iv_phoneme = ''b''\<rparr>,
                         \<lparr>iv_start = 1/4, iv_end = 1, iv_phoneme = ''c''\<rparr>]" 0]
  by (simp add: spec_frame_label_def qualifies_def FRAME_SIZE_def)

section \<open>Properties of the double rounding\<close>

text \<open>
  The rules that evaluate \<open>double_of\<close> at a number, and its sign: the double of a
  non-negative number is non-negative, so truncation after it is the floor.
\<close>

lemmas double_eval =
  double_of_def binary_exponent_def pow2_def round_half_even_def Let_def
  up_exp.simps down_exp.simps

lemma round_half_even_nonneg: "0 \<le> y \<Longrightarrow> 0 \<le> round_half_even y"
  by (auto simp: round_half_even_def Let_def)

lemma pow2_pos: "0 < pow2 e"
  by (simp add: pow2_def)

lemma double_of_nonneg: "0 \<le> x \<Longrightarrow> 0 \<le> double_of x"
  using round_half_even_nonneg[of "\<bar>x\<bar> / pow2 (binary_exponent x - 52)"]
    pow2_pos[of "binary_exponent x - 52"]
  by (auto simp: double_of_def Let_def sgn_if intro!: mult_nonneg_nonneg)

lemma py_int_nonneg: "0 \<le> x \<Longrightarrow> py_int x = \<lfloor>x\<rfloor>"
  by (simp add: py_int_def)

section \<open>Properties of the segment writer\<close>

text \<open>
  Truncation is the floor here, all times and rates being non-negative; a written segment
  is the slice followed by the zeros that \<^verbatim>\<open>data_size\<close> asks for; every written segment
  comes from a frame whose label has no \<open>oov\<close> in it, at that frame's index plus one.
\<close>

lemma data_size_floor:
  "data_size sr = \<lfloor>double_of (real_of_int (int sr * FRAME_SIZE) / 1000)\<rfloor>"
  by (simp add: data_size_def FRAME_SIZE_def py_int_nonneg double_of_nonneg)

lemma start_sample_floor:
  "0 \<le> fr_start f \<Longrightarrow>
   start_sample sr f = \<lfloor>double_of (double_of (fr_start f) * double_of (real sr))\<rfloor>"
  by (simp add: start_sample_def py_int_nonneg double_of_nonneg)

lemma end_sample_floor:
  "0 \<le> fr_end f \<Longrightarrow>
   end_sample sr f = \<lfloor>double_of (double_of (fr_end f) * double_of (real sr))\<rfloor>"
  by (simp add: end_sample_def py_int_nonneg double_of_nonneg)

lemma frame_data_padded:
  "frame_data sr wav f =
     py_slice wav (start_sample sr f) (end_sample sr f)
     @ replicate (nat (data_size sr - int (length (py_slice wav (start_sample sr f) (end_sample sr f))))) 0"
  by (simp add: frame_data_def Let_def)

lemma frame_data_length:
  "int (length (frame_data sr wav f)) =
     max (data_size sr) (int (length (py_slice wav (start_sample sr f) (end_sample sr f))))"
  by (simp add: frame_data_def Let_def)

lemma write_frames_mem:
  "seg \<in> set (write_frames name sr wav i fs) \<Longrightarrow>
   \<exists>k<length fs. seg_index seg = i + k + 1 \<and> seg_phoneme seg = fr_phoneme (fs ! k) \<and>
      seg_data seg = frame_data sr wav (fs ! k) \<and> seg_sr seg = sr \<and>
      seg_audio_name seg = name \<and> \<not> contains ''oov'' (fr_phoneme (fs ! k))"
proof (induction fs arbitrary: i)
  case Nil
  then show ?case by simp
next
  case (Cons f fs)
  show ?case
  proof (cases "seg \<in> set (write_frames name sr wav (i + 1) fs)")
    case True
    then obtain k where "k < length fs" "seg_index seg = i + 1 + k + 1"
      "seg_phoneme seg = fr_phoneme (fs ! k)" "seg_data seg = frame_data sr wav (fs ! k)"
      "seg_sr seg = sr" "seg_audio_name seg = name" "\<not> contains ''oov'' (fr_phoneme (fs ! k))"
      using Cons.IH by blast
    then show ?thesis by (intro exI[of _ "Suc k"]) simp
  next
    case False
    then have "\<not> contains ''oov'' (fr_phoneme f)" and
      "seg = \<lparr>seg_audio_name = name, seg_phoneme = fr_phoneme f, seg_index = i + 1,
            seg_sr = sr, seg_data = frame_data sr wav f\<rparr>"
      using Cons.prems by (auto split: if_splits)
    then show ?thesis by (intro exI[of _ 0]) simp
  qed
qed

lemma write_frames_index_written:
  "seg \<in> set (write_frames name sr wav i fs) \<Longrightarrow> k < length fs \<Longrightarrow>
   seg_index seg = i + k + 1 \<Longrightarrow> \<not> contains ''oov'' (fr_phoneme (fs ! k))"
  using write_frames_mem[of seg name sr wav i fs] by auto

lemma save_phoneme_frames_written:
  assumes "get_phoneme_timestamps labels (audio_label_path_of p) = Inr pts"
    and "wavs p = Some (sr, wav)"
  shows "save_phoneme_frames labels wavs p = Inr (write_frames (audio_name_of p) sr wav 0 pts)"
  using assms by (simp add: save_phoneme_frames_def)

lemma timeline_frame_nonneg:
  assumes "get_phoneme_timestamps labels path = Inr pts" and "k < length pts"
  shows "0 \<le> fr_start (pts ! k) \<and> 0 \<le> fr_end (pts ! k) \<and>
         (fr_end (pts ! k) - fr_start (pts ! k)) * 1000 = real_of_int FRAME_SIZE"
proof -
  obtain ivs where "phoneme_frames ivs = Inr pts"
    using assms(1) by (auto simp: get_phoneme_timestamps_def split: option.splits)
  then have "pts ! k = frame_at ivs (int k * WINDOW)"
    using assms(2) by (rule phoneme_frames_nth)
  then show ?thesis by (simp add: frame_at_def Let_def WINDOW_def FRAME_SIZE_def field_simps)
qed

text \<open>
  Where the double product differs from the exact one, the sample index is the one of the
  doubles: at 44100 Hz the frame at 350 ms starts at sample 15434, the double of 0.35
  lying below 0.35 (the exact product is 15435); at 100 Hz the frame \<open>[1.15, 1.4)\<close> runs
  from sample 114 to sample 140, 26 samples where \<^verbatim>\<open>data_size\<close> is 25.
\<close>

lemma start_sample_44100_at_350: "start_sample 44100 (frame_at ivs 350) = 15434"
  by (simp add: start_sample_def frame_at_def py_int_def double_eval)

lemma samples_100_at_1150:
  "start_sample 100 (frame_at ivs 1150) = 114 \<and> end_sample 100 (frame_at ivs 1150) = 140 \<and>
   data_size 100 = 25"
  by (simp add: start_sample_def end_sample_def data_size_def frame_at_def py_int_def
      FRAME_SIZE_def double_eval)

text \<open>The recording \<^verbatim>\<open>a.wav\<close>: its name, its annotation path and its timeline of ten frames.\<close>

lemma name_a: "audio_name_of ''data/raw/a.wav'' = ''a''"
  by (simp add: audio_name_of_def last_component_def)

lemma label_path_a: "audio_label_path_of ''data/raw/a.wav'' = ''data/raw/a_labels.txt''"
  by (simp add: audio_label_path_of_def name_a)

lemma py_range_500: "py_range 0 500 50 = [0, 50, 100, 150, 200, 250, 300, 350, 400, 450]"
  by (simp add: py_range.simps)

lemma ex_timeline:
  "get_phoneme_timestamps ex_labels ''data/raw/a_labels.txt'' =
     Inr [\<lparr>fr_start = 0, fr_end = 250/1000, fr_phoneme = ''SIL''\<rparr>,
          \<lparr>fr_start = 50/1000, fr_end = 300/1000, fr_phoneme = ''SIL''\<rparr>,
          \<lparr>fr_start = 100/1000, fr_end = 350/1000, fr_phoneme = ''SIL''\<rparr>,
          \<lparr>fr_start = 150/1000, fr_end = 400/1000, fr_phoneme = ''oov''\<rparr>,
          \<lparr>fr_start = 200/1000, fr_end = 450/1000, fr_phoneme = ''oov''\<rparr>,
          \<lparr>fr_start = 250/1000, fr_end = 500/1000, fr_phoneme = ''oov''\<rparr>,
          \<lparr>fr_start = 300/1000, fr_end = 550/1000, fr_phoneme = ''oov''\<rparr>,
          \<lparr>fr_start = 350/1000, fr_end = 600/1000, fr_phoneme = ''oov''\<rparr>,
          \<lparr>fr_start = 400/1000, fr_end = 650/1000, fr_phoneme = ''oov''\<rparr>,
          \<lparr>fr_start = 450/1000, fr_end = 700/1000, fr_phoneme = ''oov''\<rparr>]"
  by (simp add: get_phoneme_timestamps_def ex_labels_def phoneme_frames_def diff_def padding_def
      get_padded_last_timestamp_def padded_last_timestamp_def py_int_def FRAME_SIZE_def WINDOW_def
      py_range_500 frame_at_def sym_or_def)

lemma ex_written:
  "\<exists>written. save_phoneme_frames ex_labels ex_wavs ''data/raw/a.wav'' = Inr written"
  using save_phoneme_frames_written
    [where labels = ex_labels and p = "''data/raw/a.wav''" and wavs = ex_wavs
       and sr = 8 and wav = "[1, 2, 3]"]
  by (simp add: label_path_a ex_timeline ex_wavs_def)

text \<open>
  The recording \<^verbatim>\<open>p.wav\<close>: frames 1 to 3 end before 0.375 s and are out of vocabulary,
  frames 4 to 10 are \<open>a\<close>. Of three samples, frames 4 and 5 get two, frames 6 to 8 get one
  and a zero, frames 9 and 10 get two zeros.
\<close>

lemma name_p: "audio_name_of ''data/raw/p.wav'' = ''p''"
  by (simp add: audio_name_of_def last_component_def)

lemma label_path_p: "audio_label_path_of ''data/raw/p.wav'' = ''data/raw/p_labels.txt''"
  by (simp add: audio_label_path_of_def name_p)

lemma pad_timeline:
  "get_phoneme_timestamps pad_labels (audio_label_path_of ''data/raw/p.wav'') =
     Inr [\<lparr>fr_start = 0, fr_end = 250/1000, fr_phoneme = ''oov''\<rparr>,
          \<lparr>fr_start = 50/1000, fr_end = 300/1000, fr_phoneme = ''oov''\<rparr>,
          \<lparr>fr_start = 100/1000, fr_end = 350/1000, fr_phoneme = ''oov''\<rparr>,
          \<lparr>fr_start = 150/1000, fr_end = 400/1000, fr_phoneme = ''a''\<rparr>,
          \<lparr>fr_start = 200/1000, fr_end = 450/1000, fr_phoneme = ''a''\<rparr>,
          \<lparr>fr_start = 250/1000, fr_end = 500/1000, fr_phoneme = ''a''\<rparr>,
          \<lparr>fr_start = 300/1000, fr_end = 550/1000, fr_phoneme = ''a''\<rparr>,
          \<lparr>fr_start = 350/1000, fr_end = 600/1000, fr_phoneme = ''a''\<rparr>,
          \<lparr>fr_start = 400/1000, fr_end = 650/1000, fr_phoneme = ''a''\<rparr>,
          \<lparr>fr_start = 450/1000, fr_end = 700/1000, fr_phoneme = ''a''\<rparr>]"
  by (simp add: label_path_p get_phoneme_timestamps_def pad_labels_def phoneme_frames_def
      diff_def padding_def get_padded_last_timestamp_def padded_last_timestamp_def py_int_def
      FRAME_SIZE_def WINDOW_def py_range_500 frame_at_def sym_or_def)

lemma pad_frame_data:
  "frame_data 8 [1, 2, 3] \<lparr>fr_start = 3/20, fr_end = 2/5, fr_phoneme = ''a''\<rparr> = [2, 3]"
  "frame_data 8 [1, 2, 3] \<lparr>fr_start = 1/5, fr_end = 9/20, fr_phoneme = ''a''\<rparr> = [2, 3]"
  "frame_data 8 [1, 2, 3] \<lparr>fr_start = 1/4, fr_end = 1/2, fr_phoneme = ''a''\<rparr> = [3, 0]"
  "frame_data 8 [1, 2, 3] \<lparr>fr_start = 3/10, fr_end = 11/20, fr_phoneme = ''a''\<rparr> = [3, 0]"
  "frame_data 8 [1, 2, 3] \<lparr>fr_start = 7/20, fr_end = 3/5, fr_phoneme = ''a''\<rparr> = [3, 0]"
  "frame_data 8 [1, 2, 3] \<lparr>fr_start = 2/5, fr_end = 13/20, fr_phoneme = ''a''\<rparr> = [0, 0]"
  "frame_data 8 [1, 2, 3] \<lparr>fr_start = 9/20, fr_end = 7/10, fr_phoneme = ''a''\<rparr> = [0, 0]"
  by (simp_all add: frame_data_def start_sample_def end_sample_def data_size_def py_int_def
      py_slice_def clip_index_def FRAME_SIZE_def double_eval numeral_2_eq_2)

lemma pad_written:
  "save_phoneme_frames pad_labels pad_wavs ''data/raw/p.wav'' =
     Inr [\<lparr>seg_audio_name = ''p'', seg_phoneme = ''a'', seg_index = 4, seg_sr = 8, seg_data = [2, 3]\<rparr>,
          \<lparr>seg_audio_name = ''p'', seg_phoneme = ''a'', seg_index = 5, seg_sr = 8, seg_data = [2, 3]\<rparr>,
          \<lparr>seg_audio_name = ''p'', seg_phoneme = ''a'', seg_index = 6, seg_sr = 8, seg_data = [3, 0]\<rparr>,
          \<lparr>seg_audio_name = ''p'', seg_phoneme = ''a'', seg_index = 7, seg_sr = 8, seg_data = [3, 0]\<rparr>,
          \<lparr>seg_audio_name = ''p'', seg_phoneme = ''a'', seg_index = 8, seg_sr = 8, seg_data = [3, 0]\<rparr>,
          \<lparr>seg_audio_name = ''p'', seg_phoneme = ''a'', seg_index = 9, seg_sr = 8, seg_data = [0, 0]\<rparr>,
          \<lparr>seg_audio_name = ''p'', seg_phoneme = ''a'', seg_index = 10, seg_sr = 8, seg_data = [0, 0]\<rparr>]"
  using save_phoneme_frames_written
    [where labels = pad_labels and p = "''data/raw/p.wav''" and wavs = pad_wavs
       and sr = 8 and wav = "[1, 2, 3]", OF pad_timeline]
  by (simp add: pad_wavs_def name_p pad_frame_data)

text \<open>
  The recording \<^verbatim>\<open>s.wav\<close> at 7 Hz: five frames \<open>a\<close>; the first is the slice \<open>[0, 1)\<close>, one
  sample, and \<^verbatim>\<open>data_size\<close> is \<open>int(1.75) = 1\<close>.
\<close>

lemma name_s: "audio_name_of ''data/raw/s.wav'' = ''s''"
  by (simp add: audio_name_of_def last_component_def)

lemma label_path_s: "audio_label_path_of ''data/raw/s.wav'' = ''data/raw/s_labels.txt''"
  by (simp add: audio_label_path_of_def name_s)

lemma seven_timeline:
  "get_phoneme_timestamps seven_labels (audio_label_path_of ''data/raw/s.wav'') =
     Inr [\<lparr>fr_start = 0, fr_end = 250/1000, fr_phoneme = ''a''\<rparr>,
          \<lparr>fr_start = 50/1000, fr_end = 300/1000, fr_phoneme = ''a''\<rparr>,
          \<lparr>fr_start = 100/1000, fr_end = 350/1000, fr_phoneme = ''a''\<rparr>,
          \<lparr>fr_start = 150/1000, fr_end = 400/1000, fr_phoneme = ''a''\<rparr>,
          \<lparr>fr_start = 200/1000, fr_end = 450/1000, fr_phoneme = ''a''\<rparr>]"
  by (simp add: label_path_s get_phoneme_timestamps_def seven_labels_def phoneme_frames_def
      diff_def padding_def get_padded_last_timestamp_def padded_last_timestamp_def py_int_def
      FRAME_SIZE_def WINDOW_def py_range_250 frame_at_def sym_or_def)

lemma seven_first_data:
  "frame_data 7 [1, 2] \<lparr>fr_start = 0, fr_end = 1/4, fr_phoneme = ''a''\<rparr> = [1]"
  by (simp add: frame_data_def start_sample_def end_sample_def data_size_def py_int_def
      py_slice_def clip_index_def FRAME_SIZE_def double_eval)

lemma seven_first_written:
  "projr (save_phoneme_frames seven_labels seven_wavs ''data/raw/s.wav'') ! 0 =
     \<lparr>seg_audio_name = ''s'', seg_phoneme = ''a'', seg_index = 1, seg_sr = 7, seg_data = [1]\<rparr>"
  using save_phoneme_frames_written
    [where labels = seven_labels and p = "''data/raw/s.wav''" and wavs = seven_wavs
       and sr = 7 and wav = "[1, 2]", OF seven_timeline]
  by (simp add: seven_wavs_def name_s seven_first_data)

text \<open>
  Claim C5 as stated fails at 7 Hz, with \<open>samplesPerFrame\<close> the specification's
  \<open>round(sr * FRAME_SIZE / 1000)\<close>: the first segment written has one sample, the source's
  frame length being \<open>int(1.75) = 1\<close>, where \<open>round(1.75) = 2\<close>.
\<close>

theorem segment_shorter_than_rounded_counterexample:
  "seg_data (projr (save_phoneme_frames seven_labels seven_wavs ''data/raw/s.wav'') ! 0) = [1] \<and>
   data_size 7 = 1 \<and>
   round (7 * real_of_int FRAME_SIZE / 1000) = 2"
  by (simp add: seven_first_written data_size_def py_int_def FRAME_SIZE_def round_def double_eval)

text \<open>
  Claim C5, amended. With \<open>samplesPerFrame\<close> the source's \<^verbatim>\<open>data_size\<close>, the truncation
  \<open>int(sr * FRAME_SIZE / 1000)\<close> and not the rounding: when the annotation and the
  recording are read, every segment that \<^verbatim>\<open>save_phoneme_frames\<close> writes has at least
  \<^verbatim>\<open>data_size\<close> samples and a label without \<open>oov\<close>; a slice shorter than \<^verbatim>\<open>data_size\<close> is
  written with zeros on its right, \<^verbatim>\<open>data_size\<close> samples in all; and no segment is
  written at the index of a frame whose label contains \<open>oov\<close>.
\<close>

theorem segments_padded_and_in_vocabulary:
  assumes "get_phoneme_timestamps labels (audio_label_path_of p) = Inr pts"
    and "wavs p = Some (sr, wav)"
  shows "\<exists>written. save_phoneme_frames labels wavs p = Inr written \<and>
           data_size sr = \<lfloor>double_of (real_of_int (int sr * FRAME_SIZE) / 1000)\<rfloor> \<and>
           (\<forall>seg\<in>set written. data_size sr \<le> int (length (seg_data seg)) \<and>
                              \<not> contains ''oov'' (seg_phoneme seg)) \<and>
           (\<forall>seg\<in>set written. \<exists>k<length pts. seg_index seg = k + 1 \<and>
              (int (length (py_slice wav (start_sample sr (pts ! k)) (end_sample sr (pts ! k))))
                 < data_size sr \<longrightarrow>
               seg_data seg =
                 py_slice wav (start_sample sr (pts ! k)) (end_sample sr (pts ! k))
                 @ replicate (nat (data_size sr
                      - int (length (py_slice wav (start_sample sr (pts ! k))
                                                  (end_sample sr (pts ! k)))))) 0 \<and>
               int (length (seg_data seg)) = data_size sr)) \<and>
           (\<forall>k<length pts. contains ''oov'' (fr_phoneme (pts ! k)) \<longrightarrow>
                            (\<forall>seg\<in>set written. seg_index seg \<noteq> k + 1))"
proof -
  let ?w = "write_frames (audio_name_of p) sr wav 0 pts"
  have s: "save_phoneme_frames labels wavs p = Inr ?w"
    using assms by (rule save_phoneme_frames_written)
  have a: "data_size sr \<le> int (length (seg_data seg)) \<and> \<not> contains ''oov'' (seg_phoneme seg)"
    if m: "seg \<in> set ?w" for seg
  proof -
    obtain k where "seg_phoneme seg = fr_phoneme (pts ! k)"
      "seg_data seg = frame_data sr wav (pts ! k)" "\<not> contains ''oov'' (fr_phoneme (pts ! k))"
      using write_frames_mem[OF m] by blast
    then show ?thesis using frame_data_length[of sr wav "pts ! k"] by simp
  qed
  have c: "\<exists>k<length pts. seg_index seg = k + 1 \<and>
              (int (length (py_slice wav (start_sample sr (pts ! k)) (end_sample sr (pts ! k))))
                 < data_size sr \<longrightarrow>
               seg_data seg =
                 py_slice wav (start_sample sr (pts ! k)) (end_sample sr (pts ! k))
                 @ replicate (nat (data_size sr
                      - int (length (py_slice wav (start_sample sr (pts ! k))
                                                  (end_sample sr (pts ! k)))))) 0 \<and>
               int (length (seg_data seg)) = data_size sr)"
    if m: "seg \<in> set ?w" for seg
  proof -
    obtain k where k: "k < length pts" "seg_index seg = 0 + k + 1"
      and d: "seg_data seg = frame_data sr wav (pts ! k)"
      using write_frames_mem[OF m] by blast
    show ?thesis
      using k frame_data_padded[of sr wav "pts ! k"] frame_data_length[of sr wav "pts ! k"]
      by (intro exI[of _ k]) (simp add: d)
  qed
  have b: "seg_index seg \<noteq> k + 1"
    if k: "k < length pts" and o: "contains ''oov'' (fr_phoneme (pts ! k))" and m: "seg \<in> set ?w"
    for k seg
    using write_frames_index_written[OF m k] o by auto
  show ?thesis using s a b c data_size_floor[of sr] by blast
qed

text \<open>
  Claim C5, amended, at the recording \<^verbatim>\<open>p.wav\<close>: the out-of-vocabulary frames 1 to 3 are
  not written, frames 4 to 10 are, each with the two samples of \<^verbatim>\<open>data_size\<close>, the last
  five of them padded with zeros.
\<close>

theorem segments_padded_and_in_vocabulary_witness:
  "pad_wavs ''data/raw/p.wav'' = Some (8, [1, 2, 3]) \<and>
   data_size 8 = 2 \<and>
   map seg_index (projr (save_phoneme_frames pad_labels pad_wavs ''data/raw/p.wav''))
     = [4, 5, 6, 7, 8, 9, 10] \<and>
   map seg_data (projr (save_phoneme_frames pad_labels pad_wavs ''data/raw/p.wav''))
     = [[2, 3], [2, 3], [3, 0], [3, 0], [3, 0], [0, 0], [0, 0]] \<and>
   map seg_phoneme (projr (save_phoneme_frames pad_labels pad_wavs ''data/raw/p.wav''))
     = [''a'', ''a'', ''a'', ''a'', ''a'', ''a'', ''a'']"
proof -
  have w: "pad_wavs ''data/raw/p.wav'' = Some (8, [1, 2, 3])" by (simp add: pad_wavs_def)
  have d: "data_size 8 = 2"
    by (simp add: data_size_def py_int_def FRAME_SIZE_def double_eval)
  obtain written where wr: "save_phoneme_frames pad_labels pad_wavs ''data/raw/p.wav'' = Inr written"
    and p: "\<forall>seg\<in>set written. data_size 8 \<le> int (length (seg_data seg)) \<and>
                              \<not> contains ''oov'' (seg_phoneme seg)"
    using segments_padded_and_in_vocabulary
      [where labels = pad_labels and p = "''data/raw/p.wav''" and wavs = pad_wavs,
       OF pad_timeline w]
    by blast
  have i: "map seg_index (projr (save_phoneme_frames pad_labels pad_wavs ''data/raw/p.wav''))
     = [4, 5, 6, 7, 8, 9, 10]"
    and v: "map seg_data (projr (save_phoneme_frames pad_labels pad_wavs ''data/raw/p.wav''))
     = [[2, 3], [2, 3], [3, 0], [3, 0], [3, 0], [0, 0], [0, 0]]"
    and n: "map seg_phoneme (projr (save_phoneme_frames pad_labels pad_wavs ''data/raw/p.wav''))
     = [''a'', ''a'', ''a'', ''a'', ''a'', ''a'', ''a'']"
    by (simp_all add: pad_written)
  show ?thesis using w d i v n p by simp
qed

text \<open>
  Claim C8. When the annotation file of a recording is absent, \<^verbatim>\<open>save_phoneme_frames\<close>
  returns normally and has written no segment.
\<close>

theorem missing_annotation_skipped:
  "labels (audio_label_path_of audio_path) = None \<Longrightarrow>
   save_phoneme_frames labels wavs audio_path = Inr []"
  by (simp add: save_phoneme_frames_def get_phoneme_timestamps_def)

text \<open>Claim C8 with no annotation file at all.\<close>

theorem missing_annotation_skipped_witness:
  "Map.empty (audio_label_path_of ''data/raw/a.wav'') = (None :: interval list option) \<and>
   save_phoneme_frames Map.empty ex_wavs ''data/raw/a.wav'' = Inr []"
  using missing_annotation_skipped [of Map.empty "''data/raw/a.wav''" ex_wavs] by simp

text \<open>The one-second recording: its timeline of twenty frames and its sixteenth segment.\<close>

lemma py_range_1000:
  "py_range 0 1000 50 = [0, 50, 100, 150, 200, 250, 300, 350, 400, 450,
                         500, 550, 600, 650, 700, 750, 800, 850, 900, 950]"
  by (simp add: py_range.simps)

lemma cex_timeline:
  "get_phoneme_timestamps cex_labels ''data/raw/a_labels.txt'' =
     Inr (map (frame_at [\<lparr>iv_start = 0, iv_end = 3/4, iv_phoneme = ''a''\<rparr>])
            [0, 50, 100, 150, 200, 250, 300, 350, 400, 450,
             500, 550, 600, 650, 700, 750, 800, 850, 900, 950])"
  by (simp add: get_phoneme_timestamps_def cex_labels_def phoneme_frames_def diff_def padding_def
      get_padded_last_timestamp_def padded_last_timestamp_def py_int_def FRAME_SIZE_def WINDOW_def
      py_range_1000)

lemma cex_written:
  "save_phoneme_frames cex_labels cex_wavs ''data/raw/a.wav'' =
     Inr (write_frames ''a'' 11025 (replicate 11025 0) 0
            (map (frame_at [\<lparr>iv_start = 0, iv_end = 3/4, iv_phoneme = ''a''\<rparr>])
               [0, 50, 100, 150, 200, 250, 300, 350, 400, 450,
                500, 550, 600, 650, 700, 750, 800, 850, 900, 950]))"
  using save_phoneme_frames_written
    [where labels = cex_labels and p = "''data/raw/a.wav''" and wavs = cex_wavs
       and sr = 11025 and wav = "replicate 11025 0"]
  by (simp add: label_path_a name_a cex_timeline cex_wavs_def)

lemma cex_frame_750:
  "frame_at [\<lparr>iv_start = 0, iv_end = 3/4, iv_phoneme = ''a''\<rparr>] 750 =
     \<lparr>fr_start = 3/4, fr_end = 1, fr_phoneme = ''a''\<rparr>"
  by (simp add: frame_at_def FRAME_SIZE_def sym_or_def)

lemma cex_frame_750_samples:
  "start_sample 11025 \<lparr>fr_start = 3/4, fr_end = 1, fr_phoneme = ''a''\<rparr> = 8268"
  "end_sample 11025 \<lparr>fr_start = 3/4, fr_end = 1, fr_phoneme = ''a''\<rparr> = 11025"
  "data_size 11025 = 2756"
  by (simp_all add: start_sample_def end_sample_def data_size_def py_int_def FRAME_SIZE_def
      double_eval)

lemma cex_frame_750_data:
  "length (frame_data 11025 (replicate 11025 0) \<lparr>fr_start = 3/4, fr_end = 1, fr_phoneme = ''a''\<rparr>) = 2757"
  by (simp add: frame_data_def cex_frame_750_samples py_slice_def clip_index_def)

lemma cex_written_15:
  "write_frames ''a'' 11025 (replicate 11025 0) 0
     (map (frame_at [\<lparr>iv_start = 0, iv_end = 3/4, iv_phoneme = ''a''\<rparr>])
        [0, 50, 100, 150, 200, 250, 300, 350, 400, 450,
         500, 550, 600, 650, 700, 750, 800, 850, 900, 950]) ! 15
   = \<lparr>seg_audio_name = ''a'', seg_phoneme = ''a'', seg_index = 16, seg_sr = 11025,
      seg_data = frame_data 11025 (replicate 11025 0)
                   \<lparr>fr_start = 3/4, fr_end = 1, fr_phoneme = ''a''\<rparr>\<rparr>"
  by (simp add: frame_at_def FRAME_SIZE_def sym_or_def)

text \<open>
  Claim C6 as stated fails at 11025 Hz for the frame \<open>[0.75, 1.0)\<close>: the start sample is
  \<open>int(8268.75) = 8268\<close> where rounding gives 8269, and the segment written at index 16
  has 2757 samples where \<open>round(11025 * 250 / 1000) = 2756\<close>.
\<close>

theorem segment_rounding_counterexample:
  "start_sample 11025 (frame_at [\<lparr>iv_start = 0, iv_end = 3/4, iv_phoneme = ''a''\<rparr>] 750) = 8268 \<and>
   round (fr_start (frame_at [\<lparr>iv_start = 0, iv_end = 3/4, iv_phoneme = ''a''\<rparr>] 750) * 11025) = 8269 \<and>
   seg_index (projr (save_phoneme_frames cex_labels cex_wavs ''data/raw/a.wav'') ! 15) = 16 \<and>
   length (seg_data (projr (save_phoneme_frames cex_labels cex_wavs ''data/raw/a.wav'') ! 15)) = 2757 \<and>
   round (11025 * real_of_int FRAME_SIZE / 1000) = 2756"
proof -
  have w: "projr (save_phoneme_frames cex_labels cex_wavs ''data/raw/a.wav'') ! 15 =
      \<lparr>seg_audio_name = ''a'', seg_phoneme = ''a'', seg_index = 16, seg_sr = 11025,
       seg_data = frame_data 11025 (replicate 11025 0)
                    \<lparr>fr_start = 3/4, fr_end = 1, fr_phoneme = ''a''\<rparr>\<rparr>"
    by (simp only: cex_written sum.sel cex_written_15)
  show ?thesis
    by (simp add: w cex_frame_750 cex_frame_750_data cex_frame_750_samples round_def
        FRAME_SIZE_def)
qed

text \<open>
  Claim C6, amended. The slice bounds and the frame length are computed by truncation
  toward zero of the double-precision results: \<open>start_sample = int(start * sr)\<close>,
  \<open>end_sample = int(end * sr)\<close> and \<open>samplesPerFrame = int(sr * FRAME_SIZE / 1000)\<close>, each the
  floor of the double, which is not negative. Every written segment is the slice between
  these bounds followed by the zeros missing up to \<open>samplesPerFrame\<close>, so it has at least
  \<open>samplesPerFrame\<close> samples, and exactly \<open>samplesPerFrame\<close> when the slice is not longer
  than that.
\<close>

theorem segment_bounds_truncate:
  assumes "get_phoneme_timestamps labels (audio_label_path_of p) = Inr pts"
    and "wavs p = Some (sr, wav)"
  shows "\<exists>written. save_phoneme_frames labels wavs p = Inr written \<and>
           data_size sr = \<lfloor>double_of (real_of_int (int sr * FRAME_SIZE) / 1000)\<rfloor> \<and>
           (\<forall>seg\<in>set written. \<exists>k<length pts. seg_index seg = k + 1 \<and>
              start_sample sr (pts ! k) =
                \<lfloor>double_of (double_of (fr_start (pts ! k)) * double_of (real sr))\<rfloor> \<and>
              end_sample sr (pts ! k) =
                \<lfloor>double_of (double_of (fr_end (pts ! k)) * double_of (real sr))\<rfloor> \<and>
              seg_data seg =
                py_slice wav (start_sample sr (pts ! k)) (end_sample sr (pts ! k))
                @ replicate (nat (data_size sr
                     - int (length (py_slice wav (start_sample sr (pts ! k))
                                                 (end_sample sr (pts ! k)))))) 0 \<and>
              data_size sr \<le> int (length (seg_data seg)) \<and>
              (int (length (py_slice wav (start_sample sr (pts ! k)) (end_sample sr (pts ! k))))
                 \<le> data_size sr \<longrightarrow>
               int (length (seg_data seg)) = data_size sr))"
proof -
  let ?w = "write_frames (audio_name_of p) sr wav 0 pts"
  have s: "save_phoneme_frames labels wavs p = Inr ?w"
    using assms by (rule save_phoneme_frames_written)
  have a: "\<exists>k<length pts. seg_index seg = k + 1 \<and>
              start_sample sr (pts ! k) =
                \<lfloor>double_of (double_of (fr_start (pts ! k)) * double_of (real sr))\<rfloor> \<and>
              end_sample sr (pts ! k) =
                \<lfloor>double_of (double_of (fr_end (pts ! k)) * double_of (real sr))\<rfloor> \<and>
              seg_data seg =
                py_slice wav (start_sample sr (pts ! k)) (end_sample sr (pts ! k))
                @ replicate (nat (data_size sr
                     - int (length (py_slice wav (start_sample sr (pts ! k))
                                                 (end_sample sr (pts ! k)))))) 0 \<and>
              data_size sr \<le> int (length (seg_data seg)) \<and>
              (int (length (py_slice wav (start_sample sr (pts ! k)) (end_sample sr (pts ! k))))
                 \<le> data_size sr \<longrightarrow>
               int (length (seg_data seg)) = data_size sr)"
    if m: "seg \<in> set ?w" for seg
  proof -
    obtain k where k: "k < length pts" "seg_index seg = 0 + k + 1"
      and d: "seg_data seg = frame_data sr wav (pts ! k)"
      using write_frames_mem[OF m] by blast
    have nn: "0 \<le> fr_start (pts ! k)" "0 \<le> fr_end (pts ! k)"
      using timeline_frame_nonneg[OF assms(1) k(1)] by simp_all
    have st: "start_sample sr (pts ! k) =
        \<lfloor>double_of (double_of (fr_start (pts ! k)) * double_of (real sr))\<rfloor>"
      using nn(1) by (rule start_sample_floor)
    have en: "end_sample sr (pts ! k) =
        \<lfloor>double_of (double_of (fr_end (pts ! k)) * double_of (real sr))\<rfloor>"
      using nn(2) by (rule end_sample_floor)
    have pd: "seg_data seg =
        py_slice wav (start_sample sr (pts ! k)) (end_sample sr (pts ! k))
        @ replicate (nat (data_size sr
             - int (length (py_slice wav (start_sample sr (pts ! k))
                                         (end_sample sr (pts ! k)))))) 0"
      using frame_data_padded[of sr wav "pts ! k"] by (simp only: d)
    have ln: "int (length (seg_data seg)) =
        max (data_size sr)
            (int (length (py_slice wav (start_sample sr (pts ! k)) (end_sample sr (pts ! k)))))"
      using frame_data_length[of sr wav "pts ! k"] by (simp only: d)
    have l1: "data_size sr \<le> int (length (seg_data seg))" using ln by simp
    have l2: "int (length (py_slice wav (start_sample sr (pts ! k)) (end_sample sr (pts ! k))))
                 \<le> data_size sr \<longrightarrow> int (length (seg_data seg)) = data_size sr"
      using ln by simp
    show ?thesis using k st en pd l1 l2 by (intro exI[of _ k]) simp
  qed
  show ?thesis using s a data_size_floor[of sr] by blast
qed

text \<open>
  Claim C6, amended, at the recording \<^verbatim>\<open>p.wav\<close> of 8 Hz, where \<open>samplesPerFrame\<close> is 2:
  frame 6 is the slice from sample \<open>int(2.0) = 2\<close> to sample \<open>int(4.0) = 4\<close>, of which the
  recording has one, written with one zero; frame 9 lies behind the recording and is
  written as two zeros.
\<close>

theorem segment_bounds_truncate_witness:
  "pad_wavs ''data/raw/p.wav'' = Some (8, [1, 2, 3]) \<and>
   \<lfloor>double_of (real_of_int (int 8 * FRAME_SIZE) / 1000)\<rfloor> = 2 \<and>
   seg_index (projr (save_phoneme_frames pad_labels pad_wavs ''data/raw/p.wav'') ! 2) = 6 \<and>
   seg_data (projr (save_phoneme_frames pad_labels pad_wavs ''data/raw/p.wav'') ! 2) = [3, 0] \<and>
   seg_data (projr (save_phoneme_frames pad_labels pad_wavs ''data/raw/p.wav'') ! 5) = [0, 0] \<and>
   map (\<lambda>seg. int (length (seg_data seg)))
     (projr (save_phoneme_frames pad_labels pad_wavs ''data/raw/p.wav'')) = [2, 2, 2, 2, 2, 2, 2]"
proof -
  have w: "pad_wavs ''data/raw/p.wav'' = Some (8, [1, 2, 3])" by (simp add: pad_wavs_def)
  have d: "\<lfloor>double_of (real_of_int (int 8 * FRAME_SIZE) / 1000)\<rfloor> = 2"
    by (simp add: FRAME_SIZE_def double_eval)
  obtain written where wr: "save_phoneme_frames pad_labels pad_wavs ''data/raw/p.wav'' = Inr written"
    and ds: "data_size 8 = \<lfloor>double_of (real_of_int (int 8 * FRAME_SIZE) / 1000)\<rfloor>"
    using segment_bounds_truncate
      [where labels = pad_labels and p = "''data/raw/p.wav''" and wavs = pad_wavs,
       OF pad_timeline w]
    by blast
  have c: "seg_index (projr (save_phoneme_frames pad_labels pad_wavs ''data/raw/p.wav'') ! 2) = 6"
    "seg_data (projr (save_phoneme_frames pad_labels pad_wavs ''data/raw/p.wav'') ! 2) = [3, 0]"
    "seg_data (projr (save_phoneme_frames pad_labels pad_wavs ''data/raw/p.wav'') ! 5) = [0, 0]"
    "map (\<lambda>seg. int (length (seg_data seg)))
       (projr (save_phoneme_frames pad_labels pad_wavs ''data/raw/p.wav'')) = [2, 2, 2, 2, 2, 2, 2]"
    by (simp_all add: pad_written)
  show ?thesis using w d ds c by simp
qed

section \<open>Properties of the driver\<close>

text \<open>
  The only error that leaves \<^verbatim>\<open>save_phoneme_frames\<close> is ValueError, and the driver raises
  it when a recording of the global list raised it.
\<close>

lemma save_phoneme_frames_error:
  "save_phoneme_frames labels wavs p = Inl err \<Longrightarrow> err = ValueError"
  by (auto simp: save_phoneme_frames_def get_phoneme_timestamps_def phoneme_frames_def
      split: sum.splits option.splits if_splits prod.splits)

lemma collect_results_error:
  "(p, Inl err) \<in> set rs \<Longrightarrow> \<exists>err'. collect_results rs = Inl err'"
proof (induction rs)
  case Nil
  then show ?case by simp
next
  case (Cons r rs)
  then show ?case by (cases r) (auto split: sum.splits)
qed

lemma driver_reraises:
  assumes "p \<in> set audio_files" and "save_phoneme_frames labels wavs p = Inl err"
  shows "\<exists>err'. mp__save_phoneme_frames audio_files cpu_count labels wavs fn data workers
                  = Inl err'"
proof -
  have "(p, Inl err) \<in> set (map (\<lambda>p. (p, save_phoneme_frames labels wavs p)) audio_files)"
    using assms by force
  then obtain err' where
    "collect_results (map (\<lambda>p. (p, save_phoneme_frames labels wavs p)) audio_files) = Inl err'"
    using collect_results_error by blast
  then show ?thesis by (simp add: mp__save_phoneme_frames_def Let_def)
qed

text \<open>The result of the driver does not depend on its arguments \<^verbatim>\<open>fn\<close> and \<^verbatim>\<open>data\<close>.\<close>

lemma driver_independent_of_data:
  "mp__save_phoneme_frames audio_files cpu_count labels wavs fn data workers =
   mp__save_phoneme_frames audio_files cpu_count labels wavs fn' data' workers"
  by (simp add: mp__save_phoneme_frames_def)

text \<open>
  Claim C7, with \<^verbatim>\<open>data/raw/b.wav\<close> as the argument \<^verbatim>\<open>data\<close> while the global
  \<^verbatim>\<open>audio_files\<close> holds \<^verbatim>\<open>data/raw/a.wav\<close>: the driver processes the global's recording
  and not the one it was given. Without \<^verbatim>\<open>workers\<close> the pool has the size the machine
  reports, here 4.
\<close>

theorem driver_ignores_data_argument:
  "map fst (processed (projr (mp__save_phoneme_frames [''data/raw/a.wav''] 4 ex_labels ex_wavs
                                save_phoneme_frames [''data/raw/b.wav''] None)))
     = [''data/raw/a.wav''] \<and>
   pool_size (projr (mp__save_phoneme_frames [''data/raw/a.wav''] 4 ex_labels ex_wavs
                                save_phoneme_frames [''data/raw/b.wav''] None)) = 4"
proof -
  obtain written where "save_phoneme_frames ex_labels ex_wavs ''data/raw/a.wav'' = Inr written"
    using ex_written by blast
  then show ?thesis by (simp add: mp__save_phoneme_frames_def)
qed

section \<open>Properties of the partitioned stream\<close>

text \<open>A slice with bounds inside the list holds the items at exactly those indices.\<close>

lemma clip_index_in_range: "0 \<le> i \<Longrightarrow> i \<le> int n \<Longrightarrow> clip_index n i = nat i"
  by (simp add: clip_index_def)

lemma take_drop_map_nth:
  "e \<le> length xs \<Longrightarrow> take (e - s) (drop s xs) = map (\<lambda>j. xs ! j) [s..<e]"
  by (simp add: list_eq_iff_nth_eq)

lemma py_slice_in_range:
  assumes "0 \<le> s" and "s \<le> e" and "e \<le> int (length xs)"
  shows "py_slice xs s e = map (\<lambda>j. xs ! j) [nat s..<nat e]"
proof -
  have "clip_index (length xs) s = nat s" "clip_index (length xs) e = nat e"
    using assms by (simp_all add: clip_index_in_range)
  moreover have "nat e \<le> length xs" using assms by simp
  ultimately show ?thesis by (simp add: py_slice_def take_drop_map_nth)
qed

text \<open>Arithmetic of the work load: the ranges of the workers follow one another.\<close>

lemma work_load_bound:
  fixes cnt wid n :: int
  assumes "0 \<le> wid" and "wid < cnt" and "0 \<le> n"
  shows "wid * (n div cnt) + n div cnt \<le> n"
proof -
  have c: "0 < cnt" using assms by simp
  have wl: "0 \<le> n div cnt" using assms(3) c by (simp add: pos_imp_zdiv_nonneg_iff)
  have "wid * (n div cnt) + n div cnt = (wid + 1) * (n div cnt)" by (simp add: algebra_simps)
  also have "\<dots> \<le> cnt * (n div cnt)" using assms(2) wl by (intro mult_right_mono) simp_all
  finally have le: "wid * (n div cnt) + n div cnt \<le> cnt * (n div cnt)" .
  have "cnt * (n div cnt) + n mod cnt = n" by simp
  moreover have "0 \<le> n mod cnt" using c by simp
  ultimately show ?thesis using le by linarith
qed

lemma ranges_ordered:
  fixes a b wl :: int
  assumes "a < b" and "0 \<le> wl"
  shows "a * wl + wl \<le> b * wl"
proof -
  have "a * wl + wl = (a + 1) * wl" by (simp add: algebra_simps)
  also have "\<dots> \<le> b * wl" using assms by (intro mult_right_mono) simp_all
  finally show ?thesis .
qed

text \<open>
  Claim C4. For a dataset that was constructed, a worker \<open>wid\<close> of \<open>cnt\<close> workers gets the
  bounds \<open>[wid * wl, wid * wl + wl)\<close> with \<open>wl = len div cnt\<close>; they lie inside
  \<open>[0, len)\<close>, the slice holds the files at exactly these indices, the ranges of two
  different workers are disjoint, and an index from \<open>cnt * wl\<close> on is in no worker's range;
  there are \<open>len mod cnt\<close> such indices below \<open>len\<close>.
\<close>

theorem worker_partition:
  assumes "init_dataset fl bs = Inr ds" and "0 \<le> wid" and "wid < cnt"
    and "wl = int (length fl) div cnt"
  shows "iter_bounds ds (Some \<lparr>worker_id = wid, num_workers = cnt\<rparr>) = Inr (wid * wl, wid * wl + wl) \<and>
         0 \<le> wid * wl \<and> wid * wl + wl \<le> int (length fl) \<and>
         py_slice (files ds) (wid * wl) (wid * wl + wl) =
           map (\<lambda>j. fl ! j) [nat (wid * wl)..<nat (wid * wl + wl)] \<and>
         (\<forall>wid'. 0 \<le> wid' \<and> wid' < cnt \<and> wid' \<noteq> wid \<longrightarrow>
            {wid * wl..<wid * wl + wl} \<inter> {wid' * wl..<wid' * wl + wl} = {}) \<and>
         (\<forall>j wid'. cnt * wl \<le> j \<and> j < int (length fl) \<and> 0 \<le> wid' \<and> wid' < cnt \<longrightarrow>
            j \<notin> {wid' * wl..<wid' * wl + wl}) \<and>
         int (length fl) - cnt * wl = int (length fl) mod cnt"
proof -
  have ds: "files ds = fl" "batch_size ds = bs" "0 < bs" "fl \<noteq> []"
    using assms(1) by (auto simp: init_dataset_def split: if_splits)
  have c: "0 < cnt" using assms(2,3) by simp
  have wl0: "0 \<le> wl" using c assms(4) by (simp add: pos_imp_zdiv_nonneg_iff)
  have b: "iter_bounds ds (Some \<lparr>worker_id = wid, num_workers = cnt\<rparr>) = Inr (wid * wl, wid * wl + wl)"
    using ds c assms(4) by (simp add: iter_bounds_def Let_def)
  have lo: "0 \<le> wid * wl" using assms(2) wl0 by simp
  have hi: "wid * wl + wl \<le> int (length fl)"
    using work_load_bound[OF assms(2,3), of "int (length fl)"] assms(4) by simp
  have sl: "py_slice (files ds) (wid * wl) (wid * wl + wl) =
           map (\<lambda>j. fl ! j) [nat (wid * wl)..<nat (wid * wl + wl)]"
    using py_slice_in_range[OF lo _ hi] wl0 ds(1) by simp
  have dj: "{wid * wl..<wid * wl + wl} \<inter> {wid' * wl..<wid' * wl + wl} = {}"
    if "wid' \<noteq> wid" for wid'
  proof (cases "wid < wid'")
    case True
    then have "wid * wl + wl \<le> wid' * wl" using wl0 by (rule ranges_ordered)
    then show ?thesis by auto
  next
    case False
    then have "wid' < wid" using that by simp
    then have "wid' * wl + wl \<le> wid * wl" using wl0 by (rule ranges_ordered)
    then show ?thesis by auto
  qed
  have tr: "j \<notin> {wid' * wl..<wid' * wl + wl}" if "cnt * wl \<le> j" "wid' < cnt" for j wid'
  proof -
    have "wid' * wl + wl \<le> cnt * wl" using that(2) wl0 by (rule ranges_ordered)
    then show ?thesis using that(1) by simp
  qed
  have rm: "int (length fl) - cnt * wl = int (length fl) mod cnt"
    using assms(4) by (simp add: minus_mult_div_eq_mod)
  show ?thesis using b lo hi sl dj tr rm by blast
qed

text \<open>Claim C4 at ten files and three workers: worker 1 reads indices 3, 4, 5; index 9 is left.\<close>

theorem worker_partition_witness:
  "iter_bounds \<lparr>files = [''f0'', ''f1'', ''f2'', ''f3'', ''f4'', ''f5'', ''f6'', ''f7'', ''f8'', ''f9''],
                 batch_size = 2\<rparr> (Some \<lparr>worker_id = 1, num_workers = 3\<rparr>) = Inr (3, 6) \<and>
   py_slice [''f0'', ''f1'', ''f2'', ''f3'', ''f4'', ''f5'', ''f6'', ''f7'', ''f8'', ''f9''] 3 6 =
     [''f3'', ''f4'', ''f5''] \<and>
   (9::int) \<notin> {2 * 3..<2 * 3 + 3}"
proof -
  let ?fl = "[''f0'', ''f1'', ''f2'', ''f3'', ''f4'', ''f5'', ''f6'', ''f7'', ''f8'', ''f9'']"
  have i: "init_dataset ?fl 2 = Inr \<lparr>files = ?fl, batch_size = 2\<rparr>"
    by (simp add: init_dataset_def)
  have w: "(3::int) = int (length ?fl) div 3" by simp
  have u: "[nat (3::int)..<nat 6] = [3, 4, 5]" by (simp add: upt_rec)
  show ?thesis
    using worker_partition [OF i _ _ w, of 1] u by simp
qed

text \<open>
  With no worker the bounds are \<open>[0, \<lceil>len / batch_size\<rceil>)\<close>: the number of batches, used as
  an index into the files.
\<close>

lemma unattached_bounds:
  assumes "init_dataset fl bs = Inr ds"
  shows "iter_bounds ds None = Inr (0, \<lceil>real (length fl) / real_of_int bs\<rceil>)"
  using assms by (auto simp: init_dataset_def iter_bounds_def split: if_splits)

lemma grouper_3: "grouper [Some ''i0'', Some ''i1'', Some ''i2''] 3 None
   = [[Some ''i0'', Some ''i1'', Some ''i2'']]"
  by (simp add: grouper.simps)

text \<open>
  Claim C1, at seven files and a batch size of three, with no worker. The end index is the
  number of batches, \<open>\<lceil>7 / 3\<rceil> = 3\<close>, used as an index into the files: the slice holds
  the first three files only and \<^verbatim>\<open>grouper\<close> makes the single batch \<open>(i0, i1, i2)\<close> of
  them, where the comment in \<^verbatim>\<open>__iter__\<close> wants all batches read by the single worker.
  The call of \<^verbatim>\<open>stream_batch\<close> then raises TypeError.
\<close>

theorem unattached_seven_items_one_batch:
  "init_dataset [''i0'', ''i1'', ''i2'', ''i3'', ''i4'', ''i5'', ''i6''] 3 =
     Inr \<lparr>files = [''i0'', ''i1'', ''i2'', ''i3'', ''i4'', ''i5'', ''i6''], batch_size = 3\<rparr> \<and>
   iter_bounds \<lparr>files = [''i0'', ''i1'', ''i2'', ''i3'', ''i4'', ''i5'', ''i6''], batch_size = 3\<rparr> None
     = Inr (0, 3) \<and>
   iter_batches \<lparr>files = [''i0'', ''i1'', ''i2'', ''i3'', ''i4'', ''i5'', ''i6''], batch_size = 3\<rparr> None
     = Inr [[Some ''i0'', Some ''i1'', Some ''i2'']] \<and>
   dataset_iter \<lparr>files = [''i0'', ''i1'', ''i2'', ''i3'', ''i4'', ''i5'', ''i6''], batch_size = 3\<rparr> None
     = Inl TypeError"
  by (simp add: init_dataset_def iter_bounds_def iter_batches_def dataset_iter_def stream_batch_def
      py_slice_def clip_index_def grouper_3)

lemma iter_bounds_ok:
  assumes "init_dataset fl bs = Inr ds" and "\<forall>w. info = Some w \<longrightarrow> 0 < num_workers w"
  shows "\<exists>b. iter_bounds ds info = Inr b"
proof -
  have "batch_size ds \<noteq> 0" using assms(1) by (auto simp: init_dataset_def split: if_splits)
  then show ?thesis using assms(2)
    by (cases info) (auto simp: iter_bounds_def Let_def)
qed

text \<open>
  Claim C10. For a dataset that was constructed (files found, positive batch size), in
  the main process or in a worker of a positive number of workers, \<^verbatim>\<open>__iter__\<close> raises
  TypeError: \<^verbatim>\<open>stream_batch\<close> gets one positional argument for its two parameters, so
  no batch is ever produced.
\<close>

theorem iter_raises_TypeError:
  assumes "init_dataset fl bs = Inr ds" and "\<forall>w. info = Some w \<longrightarrow> 0 < num_workers w"
  shows "dataset_iter ds info = Inl TypeError"
proof -
  obtain b where "iter_bounds ds info = Inr b" using iter_bounds_ok[OF assms] by blast
  then obtain batches where "iter_batches ds info = Inr batches"
    by (cases b) (simp add: iter_batches_def)
  then show ?thesis by (simp add: dataset_iter_def stream_batch_def)
qed

text \<open>Claim C10 at two files, batch size 5, worker 1 of 2.\<close>

theorem iter_raises_TypeError_witness:
  "init_dataset [''x.wav'', ''y.wav''] 5 = Inr \<lparr>files = [''x.wav'', ''y.wav''], batch_size = 5\<rparr> \<and>
   dataset_iter \<lparr>files = [''x.wav'', ''y.wav''], batch_size = 5\<rparr>
      (Some \<lparr>worker_id = 1, num_workers = 2\<rparr>) = Inl TypeError"
proof -
  have i: "init_dataset [''x.wav'', ''y.wav''] 5 = Inr \<lparr>files = [''x.wav'', ''y.wav''], batch_size = 5\<rparr>"
    by (simp add: init_dataset_def)
  have n: "\<forall>w. Some \<lparr>worker_id = 1, num_workers = 2\<rparr> = Some w \<longrightarrow> 0 < num_workers w"
    by auto
  show ?thesis using i iter_raises_TypeError [OF i n] by simp
qed

end
